theory Spec2Isabelle
  imports Complex_Main "HOL-Library.Word" "HOL-Library.Sublist"
begin

section \<open>JavaScript strings\<close>

text \<open>
  A JavaScript string is a sequence of UTF-16 code units. The string methods that
  \<^verbatim>\<open>server.js\<close> uses (\<^verbatim>\<open>split\<close>, \<^verbatim>\<open>join\<close>, \<^verbatim>\<open>substring\<close>, indexing, \<^verbatim>\<open>replace\<close> with a regular
  expression without the \<^verbatim>\<open>u\<close> flag) all work on code units.
\<close>

type_synonym jschar = "16 word"
type_synonym jsstring = "jschar list"

definition str :: "string \<Rightarrow> jsstring" where
  "str = map of_char"

definition sq :: jsstring where
  \<comment> \<open>the apostrophe, U+0027\<close>
  "sq = [0x27]"

definition sp :: jschar where
  \<comment> \<open>the space, U+0020\<close>
  "sp = 0x20"

definition crlf :: jsstring where
  "crlf = [0x0D, 0x0A]"

text \<open>\<^verbatim>\<open>s.split(d)\<close> for a separator \<open>d\<close> of one code unit: every occurrence separates, so
  two adjacent separators give an empty token, and the empty string gives one empty token.\<close>

fun split_on :: "jschar \<Rightarrow> jsstring \<Rightarrow> jsstring list" where
  "split_on d [] = [[]]"
| "split_on d (c # cs) =
     (if c = d then [] # split_on d cs
      else (case split_on d cs of
              [] \<Rightarrow> [[c]]
            | w # ws \<Rightarrow> (c # w) # ws))"

text \<open>\<^verbatim>\<open>xs.join(sep)\<close> on an array of strings.\<close>

fun join :: "jsstring \<Rightarrow> jsstring list \<Rightarrow> jsstring" where
  "join sep [] = []"
| "join sep [x] = x"
| "join sep (x # y # ys) = x @ sep @ join sep (y # ys)"

text \<open>\<^verbatim>\<open>xs.join(sep)\<close> on an array whose elements may be \<^verbatim>\<open>undefined\<close> (\<open>None\<close>): an
  undefined element contributes the empty string.\<close>

definition join_undef :: "jsstring \<Rightarrow> jsstring option list \<Rightarrow> jsstring" where
  "join_undef sep xs = join sep (map (\<lambda>x. case x of None \<Rightarrow> [] | Some s \<Rightarrow> s) xs)"

text \<open>\<^verbatim>\<open>word[0]\<close>: the first code unit as a string of length one, \<^verbatim>\<open>undefined\<close> on the
  empty string.\<close>

fun index0 :: "jsstring \<Rightarrow> jsstring option" where
  "index0 [] = None"
| "index0 (c # cs) = Some [c]"

text \<open>\<^verbatim>\<open>s.replace(/c/g, r)\<close> for a pattern of one literal code unit and a replacement
  text without \<^verbatim>\<open>$\<close>.\<close>

definition replace_all :: "jschar \<Rightarrow> jsstring \<Rightarrow> jsstring \<Rightarrow> jsstring" where
  "replace_all c r s = concat (map (\<lambda>x. if x = c then r else [x]) s)"

text \<open>
  \<^verbatim>\<open>s.toUpperCase()\<close> maps every code point to its full Unicode upper-case mapping, which
  does not depend on the context. On the code units below U+0100 the mapping is written out
  here: the ASCII letters, the micro sign (to U+039C), the sharp s (to the two letters SS),
  the accented Latin-1 letters (U+00F7 is the division sign and stays), and y with diaeresis
  (to U+0178). For a string with a code unit from U+0100 on, the result comes from the
  Unicode tables of the runtime, which are a parameter \<open>rt\<close>.
\<close>

definition upper_latin1 :: "jschar \<Rightarrow> jsstring" where
  "upper_latin1 c =
     (if 0x61 \<le> c \<and> c \<le> 0x7A then [c - 0x20]
      else if c = 0xB5 then [0x39C]
      else if c = 0xDF then [0x53, 0x53]
      else if 0xE0 \<le> c \<and> c \<le> 0xFE \<and> c \<noteq> 0xF7 then [c - 0x20]
      else if c = 0xFF then [0x178]
      else [c])"

definition toUpperCase :: "(jsstring \<Rightarrow> jsstring) \<Rightarrow> jsstring \<Rightarrow> jsstring" where
  "toUpperCase rt s =
     (if list_all (\<lambda>c. c < 0x100) s then concat (map upper_latin1 s) else rt s)"

section \<open>JavaScript values and the profile resolver\<close>

text \<open>
  The body of the upstream response is whatever \<^verbatim>\<open>response.json()\<close> parses. A number is
  kept as the rational value of its double (\<^verbatim>\<open>JSON.parse\<close> gives no NaN); an object is the
  list of its properties, each name once, looked up by name.
\<close>

datatype jsval =
    JUndefined
  | JNull
  | JBool bool
  | JNum rat
  | JStr jsstring
  | JArr "jsval list"
  | JObj "(jsstring \<times> jsval) list"

datatype js_error = TypeError | SyntaxError | FetchFailed | QRFailed

text \<open>The truth value of a value in a condition, in \<^verbatim>\<open>!v\<close> and in \<^verbatim>\<open>v || w\<close>.\<close>

fun truthy :: "jsval \<Rightarrow> bool" where
  "truthy JUndefined = False"
| "truthy JNull = False"
| "truthy (JBool b) = b"
| "truthy (JNum n) = (n \<noteq> 0)"
| "truthy (JStr s) = (s \<noteq> [])"
| "truthy (JArr xs) = True"
| "truthy (JObj kvs) = True"

text \<open>
  \<^verbatim>\<open>v.k\<close> for a property name \<open>k\<close> that no prototype defines (here \<^verbatim>\<open>profile\<close> and the
  profile's field names): a TypeError on \<^verbatim>\<open>null\<close> and \<^verbatim>\<open>undefined\<close>, the property of an
  object or \<^verbatim>\<open>undefined\<close> when it has none, \<^verbatim>\<open>undefined\<close> on every other value.
\<close>

fun get_prop :: "jsval \<Rightarrow> jsstring \<Rightarrow> js_error + jsval" where
  "get_prop JUndefined k = Inl TypeError"
| "get_prop JNull k = Inl TypeError"
| "get_prop (JObj kvs) k = Inr (case map_of kvs k of None \<Rightarrow> JUndefined | Some v \<Rightarrow> v)"
| "get_prop v k = Inr JUndefined"

text \<open>The response of \<^verbatim>\<open>fetch\<close>: its status, and what \<^verbatim>\<open>response.json()\<close> gives (a
  SyntaxError when the body is not JSON). \<^verbatim>\<open>response.ok\<close> is a status from 200 to 299.\<close>

record response =
  status :: nat
  body_json :: "js_error + jsval"

definition ok :: "response \<Rightarrow> bool" where
  "ok r = (200 \<le> status r \<and> status r \<le> 299)"

definition PROF_BASE_URL :: "jsstring option \<Rightarrow> jsstring" where
  \<comment> \<open>\<^verbatim>\<open>process.env.PROF_BASE_URL || 'http://localhost:3012'\<close>\<close>
  "PROF_BASE_URL env =
     (case env of
        None \<Rightarrow> str ''http://localhost:3012''
      | Some u \<Rightarrow> if u \<noteq> [] then u else str ''http://localhost:3012'')"

definition getDemoProfile :: jsval where
  "getDemoProfile = JObj
     [(str ''name'', JStr (str ''Ada Lovelace'')),
      (str ''title'', JStr (str ''Software Enchantress'')),
      (str ''company'', JStr (str ''Planet Nine'')),
      (str ''email'', JStr (str ''ada@planetnine.app'')),
      (str ''phone'', JStr (str ''+1 (555) 123-4567'')),
      (str ''website'', JStr (str ''https://planetnine.app'')),
      (str ''location'', JStr (str ''The Cosmos'')),
      (str ''bio'', JStr (str ''Building the future of privacy-first technology.'')),
      (str ''social'', JObj
         [(str ''github'', JStr (str ''planet-nine-app'')),
          (str ''twitter'', JStr (str ''planetnine''))])]"

text \<open>
  \<^verbatim>\<open>fetchProfile\<close>. The network is the parameter \<open>fetch\<close>, from the URL to a response or a
  rejection. Every exception inside the \<^verbatim>\<open>try\<close> block (the rejected \<^verbatim>\<open>fetch\<close>, the rejected
  \<^verbatim>\<open>response.json()\<close>, the TypeError of \<^verbatim>\<open>data.profile\<close> on \<^verbatim>\<open>null\<close>) reaches the \<^verbatim>\<open>catch\<close>
  block. The result \<open>JNull\<close> is the \<^verbatim>\<open>null\<close> of the source. The console output is left out.
\<close>

definition fetchProfile ::
  "(jsstring \<Rightarrow> js_error + response) \<Rightarrow> jsstring \<Rightarrow> jsstring \<Rightarrow> jsval" where
  "fetchProfile fetch base identifier =
     (let catch = (if identifier = str ''demo'' then getDemoProfile else JNull) in
      case fetch (base @ str ''/profile/'' @ identifier) of
        Inl e \<Rightarrow> catch
      | Inr response \<Rightarrow>
          if ok response then
            (case body_json response of
               Inl e \<Rightarrow> catch
             | Inr data \<Rightarrow>
                 (case get_prop data (str ''profile'') of
                    Inl e \<Rightarrow> catch
                  | Inr v \<Rightarrow> if truthy v then v else data))
          else if identifier = str ''demo'' then getDemoProfile
          else JNull)"

text \<open>\<^verbatim>\<open>GET /api/profile/:identifier\<close>: the status and the JSON body of the answer.\<close>

definition api_profile ::
  "(jsstring \<Rightarrow> js_error + response) \<Rightarrow> jsstring \<Rightarrow> jsstring \<Rightarrow> nat \<times> jsval" where
  "api_profile fetch base identifier =
     (let profile = fetchProfile fetch base identifier in
      if \<not> truthy profile
      then (404, JObj [(str ''error'', JStr (str ''Profile not found''))])
      else (200, JObj [(str ''success'', JBool True), (str ''profile'', profile)]))"

section \<open>Profiles as the renderers read them\<close>

text \<open>
  The renderers read the fields of a profile as text. A field is \<open>None\<close> when the property
  is absent, \<^verbatim>\<open>undefined\<close> or \<^verbatim>\<open>null\<close>; \<^verbatim>\<open>social\<close> is \<open>None\<close> when there is no such object.
  A field is present, for every \<^verbatim>\<open>if (profile.f)\<close> and \<^verbatim>\<open>profile.f || d\<close> of the source, when
  it is a string that is not empty.
\<close>

record social =
  github :: "jsstring option"
  twitter :: "jsstring option"
  linkedin :: "jsstring option"

record profile =
  name :: "jsstring option"
  title :: "jsstring option"
  company :: "jsstring option"
  email :: "jsstring option"
  phone :: "jsstring option"
  website :: "jsstring option"
  location :: "jsstring option"
  bio :: "jsstring option"
  social :: "social option"

fun present :: "jsstring option \<Rightarrow> bool" where
  "present None = False"
| "present (Some s) = (s \<noteq> [])"

fun or_else :: "jsstring option \<Rightarrow> jsstring \<Rightarrow> jsstring" where
  \<comment> \<open>\<^verbatim>\<open>f || d\<close>\<close>
  "or_else None d = d"
| "or_else (Some s) d = (if s \<noteq> [] then s else d)"

section \<open>The vCard renderer\<close>

text \<open>One conditional \<^verbatim>\<open>lines.push\<close> of \<^verbatim>\<open>generateVCard\<close>: the lines it adds.\<close>

fun push_if :: "jsstring option \<Rightarrow> (jsstring \<Rightarrow> jsstring) \<Rightarrow> jsstring list" where
  "push_if None line = []"
| "push_if (Some s) line = (if s \<noteq> [] then [line s] else [])"

definition n_line :: "jsstring \<Rightarrow> jsstring" where
  "n_line nm =
     (case split_on sp nm of
        p0 # p1 # ps \<Rightarrow> str ''N:'' @ join [sp] (p1 # ps) @ str '';'' @ p0 @ str '';;;''
      | _ \<Rightarrow> str ''N:;'' @ nm @ str '';;;'')"

definition name_lines :: "jsstring option \<Rightarrow> jsstring list" where
  "name_lines f =
     (case f of
        None \<Rightarrow> []
      | Some nm \<Rightarrow> if nm \<noteq> [] then [str ''FN:'' @ nm, n_line nm] else [])"

definition social_lines :: "social option \<Rightarrow> jsstring list" where
  "social_lines f =
     (case f of
        None \<Rightarrow> []
      | Some s \<Rightarrow>
          push_if (github s) (\<lambda>v. str ''URL;TYPE=GitHub:https://github.com/'' @ v)
          @ push_if (twitter s) (\<lambda>v. str ''URL;TYPE=Twitter:https://twitter.com/'' @ v)
          @ push_if (linkedin s) (\<lambda>v. str ''URL;TYPE=LinkedIn:https://linkedin.com/in/'' @ v))"

definition vcard_lines :: "profile \<Rightarrow> jsstring list" where
  \<comment> \<open>the array \<^verbatim>\<open>lines\<close> when \<^verbatim>\<open>generateVCard\<close> joins it\<close>
  "vcard_lines p =
     [str ''BEGIN:VCARD'', str ''VERSION:3.0'']
     @ name_lines (name p)
     @ push_if (title p) (\<lambda>v. str ''TITLE:'' @ v)
     @ push_if (company p) (\<lambda>v. str ''ORG:'' @ v)
     @ push_if (email p) (\<lambda>v. str ''EMAIL;TYPE=INTERNET:'' @ v)
     @ push_if (phone p) (\<lambda>v. str ''TEL;TYPE=CELL:'' @ v)
     @ push_if (website p) (\<lambda>v. str ''URL:'' @ v)
     @ push_if (location p) (\<lambda>v. str ''ADR;TYPE=WORK:;;'' @ v @ str '';;;;'')
     @ push_if (bio p) (\<lambda>v. str ''NOTE:'' @ v)
     @ social_lines (social p)
     @ [str ''END:VCARD'']"

definition generateVCard :: "profile \<Rightarrow> jsstring" where
  "generateVCard p = join crlf (vcard_lines p)"

text \<open>
  The download's file name in \<^verbatim>\<open>GET /vcard/:identifier\<close>:
  \<^verbatim>\<open>`${profile.name || 'contact'}.vcf`.replace(/[^a-zA-Z0-9.-]/g, '_')\<close>.
\<close>

definition filename_char_ok :: "jschar \<Rightarrow> bool" where
  \<comment> \<open>the class \<^verbatim>\<open>[a-zA-Z0-9.-]\<close>\<close>
  "filename_char_ok c =
     ((0x61 \<le> c \<and> c \<le> 0x7A) \<or> (0x41 \<le> c \<and> c \<le> 0x5A) \<or> (0x30 \<le> c \<and> c \<le> 0x39)
      \<or> c = 0x2E \<or> c = 0x2D)"

definition vcard_filename :: "profile \<Rightarrow> jsstring" where
  "vcard_filename p =
     map (\<lambda>c. if filename_char_ok c then c else 0x5F) (or_else (name p) (str ''contact'') @ str ''.vcf'')"

definition content_disposition :: "profile \<Rightarrow> jsstring" where
  "content_disposition p = str ''attachment; filename=\"'' @ vcard_filename p @ str ''\"''"

section \<open>The HTML card renderer\<close>

text \<open>
  \<^verbatim>\<open>escapeHtml\<close>: the empty string for a falsy argument, otherwise the five replacements one
  after the other, the ampersand first.
\<close>

definition escapeHtml :: "jsstring \<Rightarrow> jsstring" where
  "escapeHtml s =
     (if s = [] then []
      else replace_all 0x27 (str ''&#039;'')
            (replace_all 0x22 (str ''&quot;'')
              (replace_all 0x3E (str ''&gt;'')
                (replace_all 0x3C (str ''&lt;'')
                  (replace_all 0x26 (str ''&amp;'') s)))))"

text \<open>\<^verbatim>\<open>getInitials\<close>, on \<^verbatim>\<open>profile.name\<close>.\<close>

definition getInitials :: "(jsstring \<Rightarrow> jsstring) \<Rightarrow> jsstring option \<Rightarrow> jsstring" where
  "getInitials rt f =
     (case f of
        None \<Rightarrow> str ''?''
      | Some nm \<Rightarrow>
          if nm = [] then str ''?''
          else toUpperCase rt (take 2 (join_undef [] (map index0 (split_on sp nm)))))"

text \<open>\<^verbatim>\<open>website.replace(/^https?:\/\//, '')\<close>: one scheme prefix is removed.\<close>

definition strip_scheme :: "jsstring \<Rightarrow> jsstring" where
  "strip_scheme s =
     (if prefix (str ''https://'') s then drop 8 s
      else if prefix (str ''http://'') s then drop 7 s
      else s)"

text \<open>The static text of the template literal of \<^verbatim>\<open>generateBusinessCardPage\<close>, between
  its substitutions.\<close>

definition page_head :: jsstring where
  \<open>page_head = str ''<!DOCTYPE html>
<html lang="en">
<head>
    <meta charset="UTF-8">
    <meta name="viewport" content="width=device-width, initial-scale=1.0">
    <title>''\<close>

definition page_title_end :: jsstring where
  \<open>page_title_end = str '' - Digital Business Card</title>
    <meta name="description" content="''\<close>

definition page_style :: jsstring where
  \<open>page_style = str ''">
    <style>
        * {
            margin: 0;
            padding: 0;
            box-sizing: border-box;
        }

        body {
            font-family: -apple-system, BlinkMacSystemFont, '' @ sq @ str ''Segoe UI'' @ sq @ str '', Roboto, sans-serif;
            background: linear-gradient(135deg, #0a001a 0%, #1a0033 50%, #0a001a 100%);
            min-height: 100vh;
            display: flex;
            flex-direction: column;
            align-items: center;
            justify-content: center;
            padding: 20px;
            color: white;
        }

        .card {
            background: rgba(255, 255, 255, 0.05);
            border: 1px solid rgba(16, 185, 129, 0.3);
            border-radius: 24px;
            padding: 40px;
            max-width: 400px;
            width: 100%;
            text-align: center;
            backdrop-filter: blur(10px);
            box-shadow:
                0 0 40px rgba(16, 185, 129, 0.1),
                0 0 80px rgba(139, 92, 246, 0.05);
            position: relative;
            overflow: hidden;
        }

        .card::before {
            content: '' @ sq @ sq @ str '';
            position: absolute;
            top: -50%;
            left: -50%;
            width: 200%;
            height: 200%;
            background: radial-gradient(circle, rgba(16, 185, 129, 0.1) 0%, transparent 50%);
            animation: pulse 4s ease-in-out infinite;
        }

        @keyframes pulse {
            0%, 100% { opacity: 0.5; transform: scale(1); }
            50% { opacity: 1; transform: scale(1.1); }
        }

        .card-content {
            position: relative;
            z-index: 1;
        }

        .avatar {
            width: 100px;
            height: 100px;
            border-radius: 50%;
            background: linear-gradient(135deg, #10b981 0%, #059669 100%);
            margin: 0 auto 20px;
            display: flex;
            align-items: center;
            justify-content: center;
            font-size: 40px;
            font-weight: bold;
            color: white;
            box-shadow: 0 0 30px rgba(16, 185, 129, 0.4);
        }

        .name {
            font-size: 28px;
            font-weight: 700;
            margin-bottom: 8px;
            background: linear-gradient(135deg, #10b981 0%, #a78bfa 100%);
            -webkit-background-clip: text;
            -webkit-text-fill-color: transparent;
            background-clip: text;
        }

        .title {
            font-size: 16px;
            color: rgba(167, 139, 250, 0.9);
            margin-bottom: 4px;
        }

        .company {
            font-size: 14px;
            color: rgba(255, 255, 255, 0.6);
            margin-bottom: 20px;
        }

        .bio {
            font-size: 14px;
            color: rgba(255, 255, 255, 0.7);
            line-height: 1.6;
            margin-bottom: 24px;
            font-style: italic;
        }

        .contact-info {
            text-align: left;
            margin-bottom: 24px;
        }

        .contact-item {
            display: flex;
            align-items: center;
            gap: 12px;
            padding: 10px 0;
            border-bottom: 1px solid rgba(255, 255, 255, 0.1);
            color: rgba(255, 255, 255, 0.8);
            text-decoration: none;
            transition: color 0.2s;
        }

        .contact-item:hover {
            color: #10b981;
        }

        .contact-item:last-child {
            border-bottom: none;
        }

        .contact-icon {
            width: 20px;
            text-align: center;
            color: #10b981;
        }

        .qr-section {
            margin-top: 24px;
            padding-top: 24px;
            border-top: 1px solid rgba(255, 255, 255, 0.1);
        }

        .qr-code {
            background: #1a0033;
            padding: 10px;
            border-radius: 12px;
            display: inline-block;
            margin-bottom: 12px;
        }

        .qr-code img {
            display: block;
        }

        .qr-label {
            font-size: 12px;
            color: rgba(255, 255, 255, 0.5);
        }

        .actions {
            display: flex;
            gap: 12px;
            margin-top: 24px;
        }

        .btn {
            flex: 1;
            padding: 14px 20px;
            border: none;
            border-radius: 12px;
            font-size: 14px;
            font-weight: 600;
            cursor: pointer;
            transition: all 0.2s;
            text-decoration: none;
            display: flex;
            align-items: center;
            justify-content: center;
            gap: 8px;
        }

        .btn-primary {
            background: linear-gradient(135deg, #10b981 0%, #059669 100%);
            color: white;
            box-shadow: 0 4px 20px rgba(16, 185, 129, 0.3);
        }

        .btn-primary:hover {
            transform: translateY(-2px);
            box-shadow: 0 6px 30px rgba(16, 185, 129, 0.4);
        }

        .btn-secondary {
            background: rgba(255, 255, 255, 0.1);
            color: white;
            border: 1px solid rgba(255, 255, 255, 0.2);
        }

        .btn-secondary:hover {
            background: rgba(255, 255, 255, 0.15);
        }

        .footer {
            margin-top: 30px;
            text-align: center;
            color: rgba(255, 255, 255, 0.4);
            font-size: 12px;
        }

        .footer a {
            color: #10b981;
            text-decoration: none;
        }

        /* Floating particles */
        .particle {
            position: fixed;
            width: 4px;
            height: 4px;
            background: #10b981;
            border-radius: 50%;
            opacity: 0.3;
            animation: float 10s infinite;
        }

        @keyframes float {
            0%, 100% { transform: translateY(100vh) rotate(0deg); opacity: 0; }
            10% { opacity: 0.3; }
            90% { opacity: 0.3; }
            100% { transform: translateY(-100vh) rotate(720deg); opacity: 0; }
        }
    </style>
</head>
<body>
    <!-- Floating particles -->
    <div class="particle" style="left: 10%; animation-delay: 0s;"></div>
    <div class="particle" style="left: 30%; animation-delay: 2s;"></div>
    <div class="particle" style="left: 50%; animation-delay: 4s;"></div>
    <div class="particle" style="left: 70%; animation-delay: 6s;"></div>
    <div class="particle" style="left: 90%; animation-delay: 8s;"></div>

    <div class="card">
        <div class="card-content">
            <div class="avatar">''\<close>

definition page_contact_open :: jsstring where
  \<open>page_contact_open = str ''

            <div class="contact-info">
                ''\<close>

definition page_qr_open :: jsstring where
  \<open>page_qr_open = str ''
            </div>

            <div class="qr-section">
                <div class="qr-code">
                    <img src="''\<close>

definition page_qr_close :: jsstring where
  \<open>page_qr_close = str ''" alt="QR Code" width="150" height="150">
                </div>
                <p class="qr-label">Scan to save contact</p>
            </div>

            <div class="actions">
                <a href="/vcard/''\<close>

definition page_actions_close :: jsstring where
  \<open>page_actions_close = str ''" class="btn btn-primary" download>
                    Save Contact
                </a>
                <button class="btn btn-secondary" onclick="shareCard()">
                    Share
                </button>
            </div>
        </div>
    </div>

    <div class="footer">
        <p>Powered by <a href="https://planetnine.app">Planet Nine</a></p>
    </div>

    <script>
        async function shareCard() {
            const url = window.location.href;
            const title = '' @ sq\<close>

definition page_tail :: jsstring where
  \<open>page_tail = str '' - Business Card'' @ sq @ str '';

            if (navigator.share) {
                try {
                    await navigator.share({ title, url });
                } catch (err) {
                    copyToClipboard(url);
                }
            } else {
                copyToClipboard(url);
            }
        }

        function copyToClipboard(text) {
            navigator.clipboard.writeText(text).then(() => {
                alert('' @ sq @ str ''Link copied to clipboard!'' @ sq @ str '');
            }).catch(() => {
                prompt('' @ sq @ str ''Copy this link:'' @ sq @ str '', text);
            });
        }
    </script>
</body>
</html>''\<close>

text \<open>The conditional blocks \<^verbatim>\<open>${profile.f ? `...` : ''}\<close> of the template.\<close>

fun block :: "jsstring option \<Rightarrow> (jsstring \<Rightarrow> jsstring) \<Rightarrow> jsstring" where
  "block None body = []"
| "block (Some s) body = (if s \<noteq> [] then body s else [])"

definition title_block :: "profile \<Rightarrow> jsstring" where
  \<open>title_block p = block (title p) (\<lambda>v. str ''<p class="title">'' @ escapeHtml v @ str ''</p>'')\<close>

definition company_block :: "profile \<Rightarrow> jsstring" where
  \<open>company_block p = block (company p) (\<lambda>v. str ''<p class="company">'' @ escapeHtml v @ str ''</p>'')\<close>

definition bio_block :: "profile \<Rightarrow> jsstring" where
  \<open>bio_block p = block (bio p) (\<lambda>v. str ''<p class="bio">"'' @ escapeHtml v @ str ''"</p>'')\<close>

definition email_block :: "profile \<Rightarrow> jsstring" where
  \<open>email_block p = block (email p) (\<lambda>v.
     str ''
                <a href="mailto:'' @ escapeHtml v @ str ''" class="contact-item">
                    <span class="contact-icon">@</span>
                    <span>'' @ escapeHtml v @ str ''</span>
                </a>
                '')\<close>

definition phone_block :: "profile \<Rightarrow> jsstring" where
  \<open>phone_block p = block (phone p) (\<lambda>v.
     str ''
                <a href="tel:'' @ escapeHtml v @ str ''" class="contact-item">
                    <span class="contact-icon">#</span>
                    <span>'' @ escapeHtml v @ str ''</span>
                </a>
                '')\<close>

definition website_block :: "profile \<Rightarrow> jsstring" where
  \<open>website_block p = block (website p) (\<lambda>v.
     str ''
                <a href="'' @ escapeHtml v @ str ''" target="_blank" class="contact-item">
                    <span class="contact-icon">~</span>
                    <span>'' @ escapeHtml (strip_scheme v) @ str ''</span>
                </a>
                '')\<close>

definition location_block :: "profile \<Rightarrow> jsstring" where
  \<open>location_block p = block (location p) (\<lambda>v.
     str ''
                <div class="contact-item">
                    <span class="contact-icon">*</span>
                    <span>'' @ escapeHtml v @ str ''</span>
                </div>
                '')\<close>

text \<open>
  The template literal: its static texts and its substitutions, in the order of the source.
  \<open>qrDataUrl\<close> is the data URL that the QR library returned.
\<close>

definition card_parts ::
  "(jsstring \<Rightarrow> jsstring) \<Rightarrow> jsstring \<Rightarrow> profile \<Rightarrow> jsstring \<Rightarrow> jsstring list" where
  \<open>card_parts rt qrDataUrl p identifier =
     [page_head,
      or_else (name p) (str ''BizBuz''),
      page_title_end,
      or_else (title p) [],
      str '' at '',
      or_else (company p) (str ''Planet Nine''),
      page_style,
      getInitials rt (name p),
      str ''</div>

            <h1 class="name">'',
      escapeHtml (or_else (name p) (str ''Anonymous'')),
      str ''</h1>
            '',
      title_block p,
      str ''
            '',
      company_block p,
      str ''
            '',
      bio_block p,
      page_contact_open,
      email_block p,
      str ''

                '',
      phone_block p,
      str ''

                '',
      website_block p,
      str ''

                '',
      location_block p,
      page_qr_open,
      qrDataUrl,
      page_qr_close,
      identifier,
      page_actions_close,
      escapeHtml (or_else (name p) (str ''Contact'')),
      page_tail]\<close>

definition card_html ::
  "(jsstring \<Rightarrow> jsstring) \<Rightarrow> jsstring \<Rightarrow> profile \<Rightarrow> jsstring \<Rightarrow> jsstring" where
  "card_html rt qrDataUrl p identifier = concat (card_parts rt qrDataUrl p identifier)"

section \<open>QR codes\<close>

text \<open>
  The QR library is not part of the repository: \<^verbatim>\<open>QRCode.toDataURL\<close> and \<^verbatim>\<open>QRCode.toBuffer\<close>
  are parameters, from the text to encode and the options to the image or a rejection.
\<close>

record qr_options =
  qr_type :: "jsstring option"
  qr_width :: nat
  qr_margin :: nat
  qr_dark :: jsstring
  qr_light :: jsstring

definition page_qr_options :: qr_options where
  "page_qr_options =
     \<lparr>qr_type = None, qr_width = 150, qr_margin = 1,
      qr_dark = str ''#10b981'', qr_light = str ''#1a0033''\<rparr>"

definition endpoint_qr_options :: qr_options where
  "endpoint_qr_options =
     \<lparr>qr_type = Some (str ''png''), qr_width = 300, qr_margin = 2,
      qr_dark = str ''#10b981'', qr_light = str ''#0a001a''\<rparr>"

definition page_cardUrl :: "jsstring \<Rightarrow> jsstring" where
  \<comment> \<open>\<^verbatim>\<open>cardUrl\<close> in \<^verbatim>\<open>generateBusinessCardPage\<close>\<close>
  "page_cardUrl identifier = str ''https://bizbuz.planetnine.app/card/'' @ identifier"

definition generateBusinessCardPage ::
  "(jsstring \<Rightarrow> jsstring) \<Rightarrow> (jsstring \<Rightarrow> qr_options \<Rightarrow> js_error + jsstring)
     \<Rightarrow> profile \<Rightarrow> jsstring \<Rightarrow> js_error + jsstring" where
  "generateBusinessCardPage rt toDataURL p identifier =
     (case toDataURL (page_cardUrl identifier) page_qr_options of
        Inl e \<Rightarrow> Inl e
      | Inr qrDataUrl \<Rightarrow> Inr (card_html rt qrDataUrl p identifier))"

text \<open>
  \<^verbatim>\<open>GET /qr/:identifier\<close>. \<^verbatim>\<open>req.protocol\<close> is a string; \<^verbatim>\<open>req.get('host')\<close> is \<^verbatim>\<open>undefined\<close>
  (\<open>None\<close>) for a request without a Host header, and the template literal then writes
  \<^verbatim>\<open>undefined\<close>. The answer is the image with status 200, or status 500 when the library
  rejects.
\<close>

definition endpoint_cardUrl :: "jsstring \<Rightarrow> jsstring option \<Rightarrow> jsstring \<Rightarrow> jsstring" where
  \<comment> \<open>\<^verbatim>\<open>cardUrl\<close> in the handler of \<^verbatim>\<open>/qr/:identifier\<close>\<close>
  "endpoint_cardUrl protocol host identifier =
     protocol @ str ''://''
       @ (case host of None \<Rightarrow> str ''undefined'' | Some h \<Rightarrow> h)
       @ str ''/card/'' @ identifier"

definition qr_endpoint ::
  "(jsstring \<Rightarrow> qr_options \<Rightarrow> js_error + 'b) \<Rightarrow> jsstring \<Rightarrow> jsstring option \<Rightarrow> jsstring
     \<Rightarrow> nat \<times> (js_error + 'b)" where
  "qr_endpoint toBuffer protocol host identifier =
     (case toBuffer (endpoint_cardUrl protocol host identifier) endpoint_qr_options of
        Inl e \<Rightarrow> (500, Inl e)
      | Inr qrBuffer \<Rightarrow> (200, Inr qrBuffer))"

section \<open>Notions used in the statements\<close>

text \<open>The upstream fetch fails when \<^verbatim>\<open>fetch\<close> rejects (a network error) or when the
  response's status is not a 2xx one.\<close>

definition upstream_failed ::
  "(jsstring \<Rightarrow> js_error + response) \<Rightarrow> jsstring \<Rightarrow> jsstring \<Rightarrow> bool" where
  "upstream_failed fetch base identifier =
     (case fetch (base @ str ''/profile/'' @ identifier) of
        Inl e \<Rightarrow> True
      | Inr r \<Rightarrow> \<not> ok r)"

text \<open>A profile with a name and nothing else.\<close>

definition only_name :: "jsstring \<Rightarrow> profile" where
  "only_name nm =
     \<lparr>name = Some nm, title = None, company = None, email = None, phone = None,
      website = None, location = None, bio = None, social = None\<rparr>"

text \<open>The name is the only field of the profile that is present.\<close>

definition name_is_only_field :: "profile \<Rightarrow> bool" where
  "name_is_only_field p =
     (present (name p) \<and> \<not> present (title p) \<and> \<not> present (company p) \<and> \<not> present (email p)
      \<and> \<not> present (phone p) \<and> \<not> present (website p) \<and> \<not> present (location p)
      \<and> \<not> present (bio p)
      \<and> (case social p of
            None \<Rightarrow> True
          | Some s \<Rightarrow> \<not> present (github s) \<and> \<not> present (twitter s) \<and> \<not> present (linkedin s)))"

text \<open>
  The N line as the specification words it: the name is split on single spaces; with at
  least two tokens the line is the remaining tokens joined by a space, then the first token;
  otherwise it is the whole name in the second position.
\<close>

definition n_line_spec :: "jsstring \<Rightarrow> jsstring" where
  "n_line_spec nm =
     (let tokens = split_on sp nm in
      if 2 \<le> length tokens
      then str ''N:'' @ join [sp] (tl tokens) @ str '';'' @ hd tokens @ str '';;;''
      else str ''N:;'' @ nm @ str '';;;'')"

text \<open>
  The text that the file name is made from, as the specification words it: the name if it
  is present, otherwise \<^verbatim>\<open>contact\<close>, with \<^verbatim>\<open>.vcf\<close> appended.
\<close>

definition filename_source :: "profile \<Rightarrow> jsstring" where
  "filename_source p =
     (case name p of
        None \<Rightarrow> str ''contact''
      | Some nm \<Rightarrow> if nm = [] then str ''contact'' else nm) @ str ''.vcf''"

definition jane :: profile where
  \<comment> \<open>the profile whose only field is the name \<^verbatim>\<open>Jane O'Brien!\<close>\<close>
  "jane = only_name (str ''Jane O'' @ sq @ str ''Brien!'')"

text \<open>
  The escape of one character, as the specification words it: the ampersand, the two angle
  brackets and the two quotes are replaced, every other character stays.
\<close>

definition escape_char :: "jschar \<Rightarrow> jsstring" where
  \<open>escape_char c =
     (if c = 0x26 then str ''&amp;''
      else if c = 0x3C then str ''&lt;''
      else if c = 0x3E then str ''&gt;''
      else if c = 0x22 then str ''&quot;''
      else if c = 0x27 then str ''&#039;''
      else [c])\<close>

definition eve :: profile where
  \<comment> \<open>a profile with a name and a bio that holds markup\<close>
  "eve = (only_name (str ''Eve'')) \<lparr>bio := Some (str ''Hi <script>alert(1)</script>'')\<rparr>"

text \<open>
  The initials before the upper-casing, as the specification words them: the first
  characters of the space-separated words, concatenated and truncated to two characters.
\<close>

definition initials_spec :: "jsstring \<Rightarrow> jsstring" where
  "initials_spec nm = take 2 (concat (map (take 1) (split_on sp nm)))"

section \<open>Properties of the profile resolver\<close>

lemma demo_profile_name:
  "get_prop getDemoProfile (str ''name'') = Inr (JStr (str ''Ada Lovelace''))"
  by (simp add: getDemoProfile_def str_def)

text \<open>
  Claim C1. When the upstream fetch fails (the fetch rejects, or the response is not a 2xx
  one), the resolver returns the built-in demo profile for the identifier \<^verbatim>\<open>demo\<close> and
  \<^verbatim>\<open>null\<close> for every other identifier. The demo profile is not \<^verbatim>\<open>null\<close>, and its \<^verbatim>\<open>name\<close> is
  \<^verbatim>\<open>Ada Lovelace\<close>.
\<close>

theorem fetchProfile_upstream_failure:
  assumes "upstream_failed fetch base identifier"
  shows "fetchProfile fetch base identifier
           = (if identifier = str ''demo'' then getDemoProfile else JNull)
         \<and> getDemoProfile \<noteq> JNull
         \<and> get_prop getDemoProfile (str ''name'') = Inr (JStr (str ''Ada Lovelace''))"
proof -
  have "fetchProfile fetch base identifier
          = (if identifier = str ''demo'' then getDemoProfile else JNull)"
    using assms
    by (auto simp: upstream_failed_def fetchProfile_def Let_def split: sum.splits)
  moreover have "getDemoProfile \<noteq> JNull"
    by (simp add: getDemoProfile_def)
  ultimately show ?thesis
    using demo_profile_name by simp
qed

theorem fetchProfile_upstream_failure_witness:
  "upstream_failed (\<lambda>u. Inl FetchFailed) (PROF_BASE_URL None) (str ''demo'')
   \<and> fetchProfile (\<lambda>u. Inl FetchFailed) (PROF_BASE_URL None) (str ''demo'') = getDemoProfile
   \<and> upstream_failed (\<lambda>u. Inr \<lparr>status = 404, body_json = Inl SyntaxError\<rparr>)
        (PROF_BASE_URL None) (str ''abc'')
   \<and> fetchProfile (\<lambda>u. Inr \<lparr>status = 404, body_json = Inl SyntaxError\<rparr>)
        (PROF_BASE_URL None) (str ''abc'') = JNull"
proof -
  have h1: "upstream_failed (\<lambda>u. Inl FetchFailed) (PROF_BASE_URL None) (str ''demo'')"
    by (simp add: upstream_failed_def)
  have h2: "upstream_failed (\<lambda>u. Inr \<lparr>status = 404, body_json = Inl SyntaxError\<rparr>)
              (PROF_BASE_URL None) (str ''abc'')"
    by (simp add: upstream_failed_def ok_def)
  have ne: "str ''abc'' \<noteq> str ''demo''"
    by (simp add: str_def)
  show ?thesis
    using h1 h2 ne fetchProfile_upstream_failure [OF h1] fetchProfile_upstream_failure [OF h2]
    by simp
qed

text \<open>
  Claim C9. For a 2xx upstream response whose JSON body is an object, the resolver returns
  the body's \<^verbatim>\<open>profile\<close> property when it is there and truthy, and the body itself otherwise.
  The result is truthy, so it is never the not-found result: it is not \<^verbatim>\<open>null\<close>, and
  \<^verbatim>\<open>GET /api/profile/:identifier\<close> answers with status 200.
\<close>

theorem fetchProfile_success_object:
  assumes "fetch (base @ str ''/profile/'' @ identifier) = Inr r"
    and "ok r"
    and "body_json r = Inr (JObj kvs)"
  shows "fetchProfile fetch base identifier
           = (case map_of kvs (str ''profile'') of
                None \<Rightarrow> JObj kvs
              | Some v \<Rightarrow> if truthy v then v else JObj kvs)
         \<and> truthy (fetchProfile fetch base identifier)
         \<and> fetchProfile fetch base identifier \<noteq> JNull
         \<and> fst (api_profile fetch base identifier) = 200"
proof -
  have eq: "fetchProfile fetch base identifier
           = (case map_of kvs (str ''profile'') of
                None \<Rightarrow> JObj kvs
              | Some v \<Rightarrow> if truthy v then v else JObj kvs)"
    using assms by (simp add: fetchProfile_def Let_def split: option.splits)
  have tr: "truthy (fetchProfile fetch base identifier)"
    unfolding eq by (simp split: option.splits)
  then have "fetchProfile fetch base identifier \<noteq> JNull"
    by auto
  with eq tr show ?thesis
    by (simp add: api_profile_def Let_def)
qed

theorem fetchProfile_success_object_witness:
  "ok \<lparr>status = 200, body_json = Inr (JObj [])\<rparr>
   \<and> fetchProfile (\<lambda>u. Inr \<lparr>status = 200, body_json = Inr (JObj [])\<rparr>)
        (PROF_BASE_URL None) (str ''abc'') = JObj []
   \<and> ok \<lparr>status = 200, body_json = Inr (JObj [(str ''profile'', JNull)])\<rparr>
   \<and> fetchProfile (\<lambda>u. Inr \<lparr>status = 200, body_json = Inr (JObj [(str ''profile'', JNull)])\<rparr>)
        (PROF_BASE_URL None) (str ''abc'') = JObj [(str ''profile'', JNull)]"
proof -
  have ok200: "ok \<lparr>status = 200, body_json = b\<rparr>" for b
    by (simp add: ok_def)
  show ?thesis
    using fetchProfile_success_object
            [of "\<lambda>u. Inr \<lparr>status = 200, body_json = Inr (JObj [])\<rparr>"
              "PROF_BASE_URL None" "str ''abc''" "\<lparr>status = 200, body_json = Inr (JObj [])\<rparr>" "[]"]
          fetchProfile_success_object
            [of "\<lambda>u. Inr \<lparr>status = 200, body_json = Inr (JObj [(str ''profile'', JNull)])\<rparr>"
              "PROF_BASE_URL None" "str ''abc''"
              "\<lparr>status = 200, body_json = Inr (JObj [(str ''profile'', JNull)])\<rparr>"
              "[(str ''profile'', JNull)]"]
          ok200
    by simp
qed

section \<open>Properties of the vCard renderer\<close>

lemma push_if_absent: "\<not> present f \<Longrightarrow> push_if f line = []"
  by (cases f) auto

lemma social_lines_absent:
  "(case s of None \<Rightarrow> True
     | Some s \<Rightarrow> \<not> present (github s) \<and> \<not> present (twitter s) \<and> \<not> present (linkedin s))
   \<Longrightarrow> social_lines s = []"
  by (cases s) (simp_all add: social_lines_def push_if_absent)

lemma n_line_spec_eq: "n_line nm = n_line_spec nm"
  by (simp add: n_line_def n_line_spec_def Let_def split: list.splits)

lemma n_line_prefix: "prefix (str ''N:'') (n_line nm)"
  by (simp add: n_line_def str_def split: list.splits)

subsection \<open>Splitting and joining\<close>

lemma split_on_not_Nil: "split_on d s \<noteq> []"
  by (induction s) (auto split: list.splits)

lemma join_split_on: "join [d] (split_on d s) = s"
proof (induction s)
  case Nil
  show ?case by simp
next
  case (Cons c s)
  obtain w ws where ws: "split_on d s = w # ws"
    using split_on_not_Nil [of d s] by (cases "split_on d s") auto
  show ?case
  proof (cases "c = d")
    case True
    with Cons ws show ?thesis by simp
  next
    case False
    with Cons ws show ?thesis by (cases ws) auto
  qed
qed

lemma split_on_no_separator: "w \<in> set (split_on d s) \<Longrightarrow> d \<notin> set w"
proof (induction s arbitrary: w)
  case Nil
  then show ?case by simp
next
  case (Cons c s)
  then show ?case
    by (auto split: if_splits list.splits)
qed

subsection \<open>A profile with only a name\<close>

text \<open>
  Claim C2, as the code has it. For a profile whose only present field is the name, the
  array of lines is \<^verbatim>\<open>BEGIN:VCARD\<close>, \<^verbatim>\<open>VERSION:3.0\<close>, \<^verbatim>\<open>FN:<name>\<close>, the N line and
  \<^verbatim>\<open>END:VCARD\<close>, in that order, and the output is these lines joined by CRLF: every line
  but the last is followed by CRLF, and the output ends with \<^verbatim>\<open>END:VCARD\<close>.
\<close>

theorem generateVCard_only_name:
  assumes "name_is_only_field p" and "name p = Some nm"
  shows "vcard_lines p
           = [str ''BEGIN:VCARD'', str ''VERSION:3.0'', str ''FN:'' @ nm, n_line nm,
              str ''END:VCARD'']
         \<and> generateVCard p
           = str ''BEGIN:VCARD'' @ crlf @ str ''VERSION:3.0'' @ crlf
             @ str ''FN:'' @ nm @ crlf @ n_line nm @ crlf @ str ''END:VCARD''
         \<and> prefix (str ''N:'') (n_line nm)"
proof -
  have lines: "vcard_lines p
           = [str ''BEGIN:VCARD'', str ''VERSION:3.0'', str ''FN:'' @ nm, n_line nm,
              str ''END:VCARD'']"
    using assms
    by (simp add: name_is_only_field_def vcard_lines_def push_if_absent social_lines_absent
        name_lines_def)
  show ?thesis
    using n_line_prefix by (simp add: generateVCard_def lines)
qed

theorem generateVCard_only_name_witness:
  "name_is_only_field (only_name (str ''Ada Lovelace''))
   \<and> name (only_name (str ''Ada Lovelace'')) = Some (str ''Ada Lovelace'')
   \<and> generateVCard (only_name (str ''Ada Lovelace''))
     = str ''BEGIN:VCARD'' @ crlf @ str ''VERSION:3.0'' @ crlf @ str ''FN:Ada Lovelace'' @ crlf
       @ str ''N:Lovelace;Ada;;;'' @ crlf @ str ''END:VCARD''"
proof -
  have h: "name_is_only_field (only_name (str ''Ada Lovelace''))"
    by (simp add: name_is_only_field_def only_name_def str_def)
  have nm: "name (only_name (str ''Ada Lovelace'')) = Some (str ''Ada Lovelace'')"
    by (simp add: only_name_def)
  have n: "n_line (str ''Ada Lovelace'') = str ''N:Lovelace;Ada;;;''"
    by (simp add: n_line_def str_def sp_def)
  have f: "str ''FN:'' @ str ''Ada Lovelace'' = str ''FN:Ada Lovelace''"
    by (simp add: str_def)
  show ?thesis
    using h nm generateVCard_only_name [OF h nm] n f by simp
qed

text \<open>
  Claim C2 as it is stated fails: the final \<^verbatim>\<open>END:VCARD\<close> line is not followed by CRLF.
  For the name \<^verbatim>\<open>Cher\<close> the output is not the five lines each terminated by CRLF.
\<close>

theorem generateVCard_final_line_counterexample:
  "generateVCard (only_name (str ''Cher''))
     \<noteq> str ''BEGIN:VCARD'' @ crlf @ str ''VERSION:3.0'' @ crlf @ str ''FN:Cher'' @ crlf
       @ str ''N:;Cher;;;'' @ crlf @ str ''END:VCARD'' @ crlf"
  by (simp add: generateVCard_def vcard_lines_def only_name_def name_lines_def n_line_def
      social_lines_def str_def sp_def crlf_def)

subsection \<open>The FN and N lines\<close>

text \<open>
  Claim C4. For a profile with a present name, the lines after \<^verbatim>\<open>BEGIN:VCARD\<close> and
  \<^verbatim>\<open>VERSION:3.0\<close> are \<^verbatim>\<open>FN:<name>\<close> and then the N line of the specification, and the
  output text has them in this place, each followed by CRLF. The tokens joined by a space
  give the name back. \<^verbatim>\<open>Ada Lovelace\<close> gives \<^verbatim>\<open>N:Lovelace;Ada;;;\<close> and \<^verbatim>\<open>Cher\<close> gives
  \<^verbatim>\<open>N:;Cher;;;\<close>.
\<close>

theorem generateVCard_name_lines:
  assumes "name p = Some nm" and "nm \<noteq> []"
  shows "take 2 (drop 2 (vcard_lines p)) = [str ''FN:'' @ nm, n_line_spec nm]
         \<and> (\<exists>rest. generateVCard p
               = str ''BEGIN:VCARD'' @ crlf @ str ''VERSION:3.0'' @ crlf
                 @ str ''FN:'' @ nm @ crlf @ n_line_spec nm @ crlf @ rest)
         \<and> join [sp] (split_on sp nm) = nm
         \<and> n_line_spec (str ''Ada Lovelace'') = str ''N:Lovelace;Ada;;;''
         \<and> n_line_spec (str ''Cher'') = str ''N:;Cher;;;''"
proof -
  obtain more where lines:
    "vcard_lines p = str ''BEGIN:VCARD'' # str ''VERSION:3.0'' # (str ''FN:'' @ nm) # n_line nm
       # more @ [str ''END:VCARD'']"
    using assms by (simp add: vcard_lines_def name_lines_def)
  obtain x xs where more: "more @ [str ''END:VCARD''] = x # xs"
    by (cases more) auto
  have "generateVCard p
               = str ''BEGIN:VCARD'' @ crlf @ str ''VERSION:3.0'' @ crlf
                 @ str ''FN:'' @ nm @ crlf @ n_line_spec nm @ crlf @ join crlf (x # xs)"
    unfolding generateVCard_def lines more by (simp add: n_line_spec_eq)
  moreover have "take 2 (drop 2 (vcard_lines p)) = [str ''FN:'' @ nm, n_line_spec nm]"
    unfolding lines by (simp add: n_line_spec_eq)
  moreover have "n_line_spec (str ''Ada Lovelace'') = str ''N:Lovelace;Ada;;;''"
    by (simp add: n_line_spec_def str_def sp_def)
  moreover have "n_line_spec (str ''Cher'') = str ''N:;Cher;;;''"
    by (simp add: n_line_spec_def str_def sp_def)
  ultimately show ?thesis
    using join_split_on by blast
qed

theorem generateVCard_name_lines_witness:
  "name (only_name (str ''Ada Lovelace'')) = Some (str ''Ada Lovelace'')
   \<and> str ''Ada Lovelace'' \<noteq> []
   \<and> take 2 (drop 2 (vcard_lines (only_name (str ''Ada Lovelace''))))
     = [str ''FN:Ada Lovelace'', str ''N:Lovelace;Ada;;;'']"
proof -
  have nm: "name (only_name (str ''Ada Lovelace'')) = Some (str ''Ada Lovelace'')"
    by (simp add: only_name_def)
  have ne: "str ''Ada Lovelace'' \<noteq> []"
    by (simp add: str_def)
  have f: "str ''FN:'' @ str ''Ada Lovelace'' = str ''FN:Ada Lovelace''"
    by (simp add: str_def)
  show ?thesis
    using nm ne generateVCard_name_lines [OF nm ne] f by simp
qed

subsection \<open>The file name of the download\<close>

lemma or_else_cases:
  "or_else f d = (case f of None \<Rightarrow> d | Some s \<Rightarrow> if s = [] then d else s)"
  by (cases f) auto

text \<open>
  Claim C6. The file name has the length of its source text (the name, or \<^verbatim>\<open>contact\<close>,
  with \<^verbatim>\<open>.vcf\<close> appended), and at every position it has the source's character when that
  is in \<^verbatim>\<open>[A-Za-z0-9.-]\<close> and an underscore otherwise. So every character of the file name
  is in the class or an underscore, and the extension stays. The name \<^verbatim>\<open>Jane O'Brien!\<close>
  gives \<^verbatim>\<open>Jane_O_Brien_.vcf\<close>.
\<close>

theorem vcard_filename_sanitized:
  "length (vcard_filename p) = length (filename_source p)
   \<and> (\<forall>i < length (filename_source p).
        vcard_filename p ! i
          = (if filename_char_ok (filename_source p ! i) then filename_source p ! i else 0x5F))
   \<and> (\<forall>c \<in> set (vcard_filename p). filename_char_ok c \<or> c = 0x5F)
   \<and> suffix (str ''.vcf'') (vcard_filename p)
   \<and> vcard_filename jane = str ''Jane_O_Brien_.vcf''"
proof -
  have src: "or_else (name p) (str ''contact'') @ str ''.vcf'' = filename_source p"
    by (simp add: filename_source_def or_else_cases)
  have fn: "vcard_filename p
      = map (\<lambda>c. if filename_char_ok c then c else 0x5F) (filename_source p)"
    by (simp add: vcard_filename_def src)
  have ext: "map (\<lambda>c. if filename_char_ok c then c else 0x5F) (str ''.vcf'') = str ''.vcf''"
    by (simp add: str_def filename_char_ok_def)
  have "suffix (str ''.vcf'') (vcard_filename p)"
    unfolding vcard_filename_def map_append ext by (rule suffixI) simp
  moreover have "vcard_filename jane = str ''Jane_O_Brien_.vcf''"
    by (simp add: vcard_filename_def jane_def only_name_def str_def sq_def filename_char_ok_def)
  ultimately show ?thesis
    unfolding fn by auto
qed

theorem vcard_filename_sanitized_witness:
  "vcard_filename jane = str ''Jane_O_Brien_.vcf''
   \<and> content_disposition jane = str ''attachment; filename=\"Jane_O_Brien_.vcf\"''"
proof -
  have "content_disposition jane
          = str ''attachment; filename=\"'' @ str ''Jane_O_Brien_.vcf'' @ str ''\"''"
    using vcard_filename_sanitized [of jane] by (simp add: content_disposition_def)
  then show ?thesis
    using vcard_filename_sanitized [of jane] by (simp add: str_def)
qed

section \<open>Properties of the HTML card renderer\<close>

subsection \<open>Escaping\<close>

lemma replace_all_append: "replace_all c r (a @ b) = replace_all c r a @ replace_all c r b"
  by (simp add: replace_all_def)

lemma replace_all_Nil: "replace_all c r [] = []"
  by (simp add: replace_all_def)

lemma escapeHtml_single: "escapeHtml [c] = escape_char c"
  by (simp add: escapeHtml_def escape_char_def replace_all_def str_def)

lemma escapeHtml_append: "escapeHtml (a @ b) = escapeHtml a @ escapeHtml b"
  by (simp add: escapeHtml_def replace_all_append replace_all_Nil)

lemma escapeHtml_concat: "escapeHtml s = concat (map escape_char s)"
proof (induction s)
  case Nil
  show ?case by (simp add: escapeHtml_def)
next
  case (Cons c s)
  have "escapeHtml (c # s) = escapeHtml [c] @ escapeHtml s"
    using escapeHtml_append [of "[c]" s] by simp
  with Cons show ?case by (simp add: escapeHtml_single)
qed

lemma escape_char_no_markup: "0x3C \<notin> set (escape_char c) \<and> 0x3E \<notin> set (escape_char c)
   \<and> 0x22 \<notin> set (escape_char c) \<and> 0x27 \<notin> set (escape_char c)"
  by (simp add: escape_char_def str_def)

lemma escapeHtml_no_markup:
  "0x3C \<notin> set (escapeHtml s) \<and> 0x3E \<notin> set (escapeHtml s)
   \<and> 0x22 \<notin> set (escapeHtml s) \<and> 0x27 \<notin> set (escapeHtml s)"
  using escape_char_no_markup by (auto simp: escapeHtml_concat)

lemma sublist_skip:
  "c \<notin> set e \<Longrightarrow> sublist (c # xs) (e @ s) \<longleftrightarrow> sublist (c # xs) s"
  by (induction e) (auto simp: sublist_Cons_right)

lemma sublist_concat: "x \<in> set xs \<Longrightarrow> sublist x (concat xs)"
proof -
  assume "x \<in> set xs"
  then obtain as bs where "xs = as @ x # bs"
    by (auto dest: split_list)
  then have "concat xs = concat as @ x @ concat bs"
    by simp
  then show ?thesis
    by (metis sublist_appendI)
qed

text \<open>
  Claim C7. For a profile whose bio contains \<^verbatim>\<open><script>\<close>, the bio block of the page is
  the paragraph around the escaped bio. The escaped bio contains \<^verbatim>\<open>&lt;script&gt;\<close> and
  neither angle bracket, the block does not contain \<^verbatim>\<open><script>\<close>, and the block is the
  sixteenth part of the template and so a part of the page.
\<close>

theorem bio_block_escaped:
  assumes \<open>bio p = Some b\<close> and \<open>sublist (str ''<script>'') b\<close>
  shows \<open>bio_block p = str ''<p class="bio">"'' @ escapeHtml b @ str ''"</p>''
    \<and> sublist (str ''&lt;script&gt;'') (escapeHtml b)
    \<and> 0x3C \<notin> set (escapeHtml b) \<and> 0x3E \<notin> set (escapeHtml b)
    \<and> \<not> sublist (str ''<script>'') (bio_block p)
    \<and> card_parts rt q p ident ! 15 = bio_block p
    \<and> sublist (bio_block p) (card_html rt q p ident)\<close>
proof -
  from assms(2) obtain u v where b: "b = u @ str ''<script>'' @ v"
    by (auto simp: sublist_def)
  have ne: "b \<noteq> []"
    unfolding b by (simp add: str_def)
  have blk: \<open>bio_block p = str ''<p class="bio">"'' @ escapeHtml b @ str ''"</p>''\<close>
    using assms(1) ne by (simp add: bio_block_def)
  have esc: "escapeHtml (str ''<script>'') = str ''&lt;script&gt;''"
    by (simp add: escapeHtml_def replace_all_def str_def)
  have "escapeHtml b = escapeHtml u @ str ''&lt;script&gt;'' @ escapeHtml v"
    unfolding b by (simp add: escapeHtml_append esc)
  then have sub: "sublist (str ''&lt;script&gt;'') (escapeHtml b)"
    by simp
  have lt: "0x3C \<notin> set (escapeHtml b)" and gt: "0x3E \<notin> set (escapeHtml b)"
    using escapeHtml_no_markup [of b] by simp_all
  have raw: \<open>\<not> sublist (str ''<script>'') (bio_block p)\<close>
    unfolding blk using lt by (simp add: str_def sublist_Cons_right sublist_skip)
  have part: "card_parts rt q p ident ! 15 = bio_block p"
    by (simp add: card_parts_def)
  have "bio_block p \<in> set (card_parts rt q p ident)"
    by (simp add: card_parts_def)
  then have "sublist (bio_block p) (card_html rt q p ident)"
    unfolding card_html_def by (rule sublist_concat)
  with blk sub lt gt raw part show ?thesis
    by simp
qed

theorem bio_block_escaped_witness:
  \<open>bio eve = Some (str ''Hi <script>alert(1)</script>'')
   \<and> sublist (str ''<script>'') (str ''Hi <script>alert(1)</script>'')
   \<and> bio_block eve = str ''<p class="bio">"Hi &lt;script&gt;alert(1)&lt;/script&gt;"</p>''\<close>
proof -
  have h1: "bio eve = Some (str ''Hi <script>alert(1)</script>'')"
    by (simp add: eve_def only_name_def)
  have h2: "sublist (str ''<script>'') (str ''Hi <script>alert(1)</script>'')"
    by (simp add: str_def sublist_Cons_right)
  have e: "escapeHtml (str ''Hi <script>alert(1)</script>'')
             = str ''Hi &lt;script&gt;alert(1)&lt;/script&gt;''"
    by (simp add: escapeHtml_def replace_all_def str_def)
  show ?thesis
    using h1 h2 bio_block_escaped [OF h1 h2] e by (simp add: str_def)
qed

subsection \<open>The places without escaping\<close>

lemma page_head_title: "suffix (str ''<title>'') page_head"
  by (simp add: page_head_def str_def suffix_to_prefix)

lemma page_title_end_text: "prefix (str '' - Digital Business Card</title>'') page_title_end"
  by (simp add: page_title_end_def str_def)

text \<open>
  Claim C3 at the profile whose name is \<^verbatim>\<open><i>\<close>. The substitution in the document title
  is the raw name, and the avatar holds the raw initial \<^verbatim>\<open><\<close>, while the escaped name is
  \<^verbatim>\<open>&lt;i&gt;\<close>: the page contains \<^verbatim>\<open><title><i> - Digital Business Card</title>\<close>.
\<close>

theorem card_title_not_escaped:
  "card_parts rt q (only_name (str ''<i>'')) ident ! 1 = str ''<i>''
   \<and> card_parts rt q (only_name (str ''<i>'')) ident ! 7 = str ''<''
   \<and> escapeHtml (str ''<i>'') = str ''&lt;i&gt;''
   \<and> sublist (str ''<title><i> - Digital Business Card</title>'')
        (card_html rt q (only_name (str ''<i>'')) ident)"
proof -
  obtain h where h: "page_head = h @ str ''<title>''"
    using page_head_title by (auto simp: suffix_def)
  obtain t where t: "page_title_end = str '' - Digital Business Card</title>'' @ t"
    using page_title_end_text by (auto simp: prefix_def)
  have ne: "str ''<i>'' \<noteq> []"
    by (simp add: str_def)
  have p1: "card_parts rt q (only_name (str ''<i>'')) ident ! 1 = str ''<i>''"
    using ne by (simp add: card_parts_def only_name_def)
  have p7: "card_parts rt q (only_name (str ''<i>'')) ident ! 7 = str ''<''"
    by (simp add: card_parts_def only_name_def getInitials_def join_undef_def toUpperCase_def
        upper_latin1_def sp_def str_def)
  have e: "escapeHtml (str ''<i>'') = str ''&lt;i&gt;''"
    by (simp add: escapeHtml_def replace_all_def str_def)
  have j: "str ''<title>'' @ str ''<i>'' @ str '' - Digital Business Card</title>''
        = str ''<title><i> - Digital Business Card</title>''"
    by (simp add: str_def)
  obtain rest where "card_parts rt q (only_name (str ''<i>'')) ident
      = page_head # str ''<i>'' # page_title_end # rest"
    using ne by (simp add: card_parts_def only_name_def)
  then have "card_html rt q (only_name (str ''<i>'')) ident
      = h @ (str ''<title>'' @ str ''<i>'' @ str '' - Digital Business Card</title>'')
          @ (t @ concat rest)"
    by (simp add: card_html_def h t)
  then have "sublist (str ''<title><i> - Digital Business Card</title>'')
        (card_html rt q (only_name (str ''<i>'')) ident)"
    unfolding j by (metis sublist_appendI)
  with p1 p7 e show ?thesis
    by simp
qed

subsection \<open>Initials\<close>

lemma join_empty: "join [] xs = concat xs"
  by (induction "[] :: jsstring" xs rule: join.induct) simp_all

lemma index0_take: "(case index0 w of None \<Rightarrow> [] | Some s \<Rightarrow> s) = take 1 w"
  by (cases w) simp_all

lemma initials_eq: "take 2 (join_undef [] (map index0 (split_on sp nm))) = initials_spec nm"
  by (simp add: join_undef_def join_empty initials_spec_def comp_def index0_take)

lemma upper_latin1_length: "c \<noteq> 0xDF \<Longrightarrow> length (upper_latin1 c) = 1"
  by (simp add: upper_latin1_def)

lemma toUpperCase_length:
  assumes "\<forall>c \<in> set s. c < 0x100 \<and> c \<noteq> 0xDF"
  shows "length (toUpperCase rt s) = length s"
proof -
  have "length (concat (map upper_latin1 s)) = length s"
    using assms by (induction s) (simp_all add: upper_latin1_length)
  moreover have "list_all (\<lambda>c. c < 0x100) s"
    using assms by (simp add: list_all_iff)
  ultimately show ?thesis
    by (simp add: toUpperCase_def)
qed

lemma spaces_no_initials: "set s \<subseteq> {d} \<Longrightarrow> concat (map (take 1) (split_on d s)) = []"
  by (induction s) simp_all

lemma initials_spec_spaces: "set nm \<subseteq> {sp} \<Longrightarrow> initials_spec nm = []"
  unfolding initials_spec_def by (simp only: spaces_no_initials take_Nil)

text \<open>
  Claim C10, as the code has it. For an absent or empty name the result is \<^verbatim>\<open>?\<close>.
  Otherwise it is the upper-case form of the first characters of the space-separated
  words, concatenated and truncated to two characters. This text before the upper-casing
  has at most two characters, and the result has at most two when they are below U+0100
  and none is the sharp s. A name of spaces only gives the empty string.
\<close>

theorem getInitials_result:
  "getInitials rt None = str ''?''
   \<and> getInitials rt (Some []) = str ''?''
   \<and> (nm \<noteq> [] \<longrightarrow> getInitials rt (Some nm) = toUpperCase rt (initials_spec nm))
   \<and> length (initials_spec nm) \<le> 2
   \<and> (nm \<noteq> [] \<and> (\<forall>c \<in> set (initials_spec nm). c < 0x100 \<and> c \<noteq> 0xDF)
        \<longrightarrow> length (getInitials rt (Some nm)) \<le> 2)
   \<and> (nm \<noteq> [] \<and> set nm \<subseteq> {sp} \<longrightarrow> getInitials rt (Some nm) = [])"
proof -
  have eq: "getInitials rt (Some nm) = toUpperCase rt (initials_spec nm)" if "nm \<noteq> []"
    using that by (simp add: getInitials_def initials_eq)
  have len: "length (initials_spec nm) \<le> 2"
    by (simp add: initials_spec_def)
  have up: "length (getInitials rt (Some nm)) \<le> 2"
    if "nm \<noteq> []" and "\<forall>c \<in> set (initials_spec nm). c < 0x100 \<and> c \<noteq> 0xDF"
    using that len by (simp add: eq toUpperCase_length)
  have spaces: "getInitials rt (Some nm) = []" if "nm \<noteq> []" and "set nm \<subseteq> {sp}"
    using that by (simp add: eq initials_spec_spaces toUpperCase_def)
  show ?thesis
    using eq len up spaces by (simp add: getInitials_def)
qed

theorem getInitials_result_witness:
  "str ''ada lovelace byron'' \<noteq> []
   \<and> initials_spec (str ''ada lovelace byron'') = str ''al''
   \<and> getInitials id (Some (str ''ada lovelace byron'')) = str ''AL''
   \<and> length (getInitials id (Some (str ''ada lovelace byron''))) \<le> 2
   \<and> str ''   '' \<noteq> [] \<and> set (str ''   '') \<subseteq> {sp}
   \<and> getInitials id (Some (str ''   '')) = []"
proof -
  have i: "initials_spec (str ''ada lovelace byron'') = str ''al''"
    by (simp add: initials_spec_def sp_def str_def)
  have u: "toUpperCase id (str ''al'') = str ''AL''"
    by (simp add: toUpperCase_def upper_latin1_def str_def)
  have h1: "str ''ada lovelace byron'' \<noteq> []"
    by (simp add: str_def)
  have h2: "\<forall>c \<in> set (initials_spec (str ''ada lovelace byron'')). c < 0x100 \<and> c \<noteq> 0xDF"
    unfolding i by (simp add: str_def)
  have h3: "str ''   '' \<noteq> [] \<and> set (str ''   '') \<subseteq> {sp}"
    by (simp add: str_def sp_def)
  have a: "getInitials id (Some (str ''ada lovelace byron''))
             = toUpperCase id (initials_spec (str ''ada lovelace byron''))"
    using h1 getInitials_result [of id "str ''ada lovelace byron''"] by blast
  have l: "length (getInitials id (Some (str ''ada lovelace byron''))) \<le> 2"
    using h1 h2 getInitials_result [of id "str ''ada lovelace byron''"] by blast
  have b: "getInitials id (Some (str ''   '')) = []"
    using h3 getInitials_result [of id "str ''   ''"] by blast
  show ?thesis
    using h1 h3 b l by (simp add: a i u)
qed

text \<open>
  Claim C10 as it is stated fails: the upper-casing comes after the truncation and can
  lengthen the text. The name of two words that are each the sharp s (U+00DF) has the
  initials \<^verbatim>\<open>SSSS\<close>. The name has no code unit from U+0100 on, so the runtime's tables do
  not matter.
\<close>

theorem getInitials_length_counterexample:
  "getInitials id (Some [0xDF, sp, 0xDF]) = str ''SSSS''
   \<and> \<not> length (getInitials id (Some [0xDF, sp, 0xDF])) \<le> 2"
  by (simp add: getInitials_def join_undef_def toUpperCase_def upper_latin1_def sp_def str_def)

section \<open>Properties of the QR code URLs\<close>

lemma url_unique:
  "p @ str ''://'' @ h = str ''https://bizbuz.planetnine.app''
     \<longleftrightarrow> p = str ''https'' \<and> h = str ''bizbuz.planetnine.app''"
  by (simp add: str_def append_eq_Cons_conv)

lemma host_text:
  "(case host of None \<Rightarrow> str ''undefined'' | Some h \<Rightarrow> h) = str ''bizbuz.planetnine.app''
     \<longleftrightarrow> host = Some (str ''bizbuz.planetnine.app'')"
  by (cases host) (simp_all add: str_def)

lemma page_qr_open_img: \<open>suffix (str ''<img src="'') page_qr_open\<close>
  by (simp add: page_qr_open_def str_def suffix_to_prefix)

lemma page_qr_close_img:
  \<open>prefix (str ''" alt="QR Code" width="150" height="150">'') page_qr_close\<close>
  by (simp add: page_qr_close_def str_def)

lemma card_html_embeds_qr:
  \<open>sublist (str ''<img src="'' @ q @ str ''" alt="QR Code" width="150" height="150">'')
     (card_html rt q p ident)\<close>
proof -
  obtain a where a: \<open>page_qr_open = a @ str ''<img src="''\<close>
    using page_qr_open_img by (auto simp: suffix_def)
  obtain b where b: \<open>page_qr_close = str ''" alt="QR Code" width="150" height="150">'' @ b\<close>
    using page_qr_close_img by (auto simp: prefix_def)
  have parts: "card_parts rt q p ident
      = take 24 (card_parts rt q p ident)
        @ page_qr_open # q # page_qr_close # drop 27 (card_parts rt q p ident)"
    by (simp add: card_parts_def)
  have "card_html rt q p ident
      = concat (take 24 (card_parts rt q p ident)
          @ page_qr_open # q # page_qr_close # drop 27 (card_parts rt q p ident))"
    unfolding card_html_def by (rule arg_cong [OF parts])
  also have \<open>\<dots> = (concat (take 24 (card_parts rt q p ident)) @ a)
      @ (str ''<img src="'' @ q @ str ''" alt="QR Code" width="150" height="150">'')
      @ (b @ concat (drop 27 (card_parts rt q p ident)))\<close>
    by (simp add: a b)
  finally show ?thesis
    by (simp only: sublist_appendI)
qed

text \<open>
  Claim C5. The page asks the QR library for the fixed URL
  \<^verbatim>\<open>https://bizbuz.planetnine.app/card/<identifier>\<close>, whatever the request, and embeds the
  data URL it gets: the data URL is the twenty-sixth part of the template, the page contains
  the image element whose source it is, and when the library answers for the fixed URL the
  page that is returned contains that image. The endpoint \<^verbatim>\<open>/qr/:identifier\<close> asks for
  \<^verbatim>\<open><protocol>://<host>/card/<identifier>\<close> of the request. The two URLs are equal exactly
  when the protocol is \<^verbatim>\<open>https\<close> and the host is \<^verbatim>\<open>bizbuz.planetnine.app\<close>, and differ for
  every other request.
\<close>

theorem qr_urls:
  \<open>generateBusinessCardPage rt toDataURL p identifier
     = (case toDataURL (str ''https://bizbuz.planetnine.app/card/'' @ identifier) page_qr_options of
          Inl e \<Rightarrow> Inl e
        | Inr qrDataUrl \<Rightarrow> Inr (card_html rt qrDataUrl p identifier))
   \<and> card_parts rt qrDataUrl p identifier ! 25 = qrDataUrl
   \<and> sublist (str ''<img src="'' @ qrDataUrl @ str ''" alt="QR Code" width="150" height="150">'')
        (card_html rt qrDataUrl p identifier)
   \<and> (toDataURL (str ''https://bizbuz.planetnine.app/card/'' @ identifier) page_qr_options = Inr d
        \<longrightarrow> (\<exists>html. generateBusinessCardPage rt toDataURL p identifier = Inr html
              \<and> sublist (str ''<img src="'' @ d @ str ''" alt="QR Code" width="150" height="150">'')
                   html))
   \<and> qr_endpoint toBuffer protocol (Some h) identifier
     = (case toBuffer (protocol @ str ''://'' @ h @ str ''/card/'' @ identifier) endpoint_qr_options of
          Inl e \<Rightarrow> (500, Inl e)
        | Inr qrBuffer \<Rightarrow> (200, Inr qrBuffer))
   \<and> (endpoint_cardUrl protocol host identifier = page_cardUrl identifier
        \<longleftrightarrow> protocol = str ''https'' \<and> host = Some (str ''bizbuz.planetnine.app''))\<close>
proof -
  have split: "str ''https://bizbuz.planetnine.app/card/'' @ identifier
      = str ''https://bizbuz.planetnine.app'' @ str ''/card/'' @ identifier"
    by (simp add: str_def)
  have "endpoint_cardUrl protocol host identifier = page_cardUrl identifier
        \<longleftrightarrow> (protocol @ str ''://'' @ (case host of None \<Rightarrow> str ''undefined'' | Some h \<Rightarrow> h))
              @ (str ''/card/'' @ identifier)
            = str ''https://bizbuz.planetnine.app'' @ (str ''/card/'' @ identifier)"
    unfolding endpoint_cardUrl_def page_cardUrl_def split by simp
  also have "\<dots> \<longleftrightarrow> protocol @ str ''://'' @ (case host of None \<Rightarrow> str ''undefined'' | Some h \<Rightarrow> h)
            = str ''https://bizbuz.planetnine.app''"
    by (rule append_same_eq)
  also have "\<dots> \<longleftrightarrow> protocol = str ''https'' \<and> host = Some (str ''bizbuz.planetnine.app'')"
    by (simp only: url_unique host_text)
  finally have urls: "endpoint_cardUrl protocol host identifier = page_cardUrl identifier
        \<longleftrightarrow> protocol = str ''https'' \<and> host = Some (str ''bizbuz.planetnine.app'')" .
  have page: "generateBusinessCardPage rt toDataURL p identifier
     = (case toDataURL (str ''https://bizbuz.planetnine.app/card/'' @ identifier) page_qr_options of
          Inl e \<Rightarrow> Inl e
        | Inr qrDataUrl \<Rightarrow> Inr (card_html rt qrDataUrl p identifier))"
    by (simp add: generateBusinessCardPage_def page_cardUrl_def)
  have part: "card_parts rt qrDataUrl p identifier ! 25 = qrDataUrl"
    by (simp add: card_parts_def)
  have img: \<open>sublist (str ''<img src="'' @ x @ str ''" alt="QR Code" width="150" height="150">'')
        (card_html rt x p identifier)\<close> for x
    by (rule card_html_embeds_qr)
  have got: \<open>\<exists>html. generateBusinessCardPage rt toDataURL p identifier = Inr html
              \<and> sublist (str ''<img src="'' @ d @ str ''" alt="QR Code" width="150" height="150">'')
                   html\<close>
    if "toDataURL (str ''https://bizbuz.planetnine.app/card/'' @ identifier) page_qr_options = Inr d"
    using that img [of d] by (simp add: page)
  have endpoint: "qr_endpoint toBuffer protocol (Some h) identifier
     = (case toBuffer (protocol @ str ''://'' @ h @ str ''/card/'' @ identifier) endpoint_qr_options of
          Inl e \<Rightarrow> (500, Inl e)
        | Inr qrBuffer \<Rightarrow> (200, Inr qrBuffer))"
    by (simp add: qr_endpoint_def endpoint_cardUrl_def)
  from page part img [of qrDataUrl] got endpoint urls show ?thesis
    by blast
qed

theorem qr_urls_witness:
  \<open>generateBusinessCardPage id (\<lambda>u opts. Inr (str ''data:image/png;base64,AAAA'')) eve (str ''abc'')
     = Inr (card_html id (str ''data:image/png;base64,AAAA'') eve (str ''abc''))
   \<and> sublist (str ''<img src="data:image/png;base64,AAAA" alt="QR Code" width="150" height="150">'')
        (card_html id (str ''data:image/png;base64,AAAA'') eve (str ''abc''))
   \<and> endpoint_cardUrl (str ''http'') (Some (str ''localhost:3013'')) (str ''abc'')
        \<noteq> page_cardUrl (str ''abc'')\<close>
proof -
  have j: \<open>str ''<img src="'' @ str ''data:image/png;base64,AAAA''
             @ str ''" alt="QR Code" width="150" height="150">''
        = str ''<img src="data:image/png;base64,AAAA" alt="QR Code" width="150" height="150">''\<close>
    by (simp add: str_def)
  have ne: "str ''http'' \<noteq> str ''https''"
    by (simp add: str_def)
  note t = qr_urls
    [of id "\<lambda>u opts. Inr (str ''data:image/png;base64,AAAA'')" eve "str ''abc''"
       "str ''data:image/png;base64,AAAA''" "str ''data:image/png;base64,AAAA''"
       "\<lambda>u opts. Inr (str ''png'')" "str ''http''" "str ''localhost:3013''"
       "Some (str ''localhost:3013'')"]
  have a: \<open>generateBusinessCardPage id (\<lambda>u opts. Inr (str ''data:image/png;base64,AAAA'')) eve
               (str ''abc'')
             = Inr (card_html id (str ''data:image/png;base64,AAAA'') eve (str ''abc''))\<close>
    using t by simp
  have b: \<open>sublist (str ''<img src="'' @ str ''data:image/png;base64,AAAA''
                @ str ''" alt="QR Code" width="150" height="150">'')
            (card_html id (str ''data:image/png;base64,AAAA'') eve (str ''abc''))\<close>
    using t by blast
  have c: "endpoint_cardUrl (str ''http'') (Some (str ''localhost:3013'')) (str ''abc'')
        \<noteq> page_cardUrl (str ''abc'')"
    using ne t by blast
  show ?thesis
    using a b c unfolding j by simp
qed

end
